theory Spec2Isabelle
  imports Complex_Main "HOL-Library.Word" "HOL-Library.AList"
begin

section \<open>JavaScript values\<close>

text \<open>
  The client (\<^verbatim>\<open>src/public/client.js\<close>) handles three kinds of data: JSON parsed from
  server responses, the binary buffers the codec produces from text, and the object
  literals it builds itself. One type of values covers them.

  \<^item> A number is observed by the program only through its truthiness and through
    \<^verbatim>\<open>=== 0\<close>; it is kept as a rational.
  \<^item> A string is the list of the bytes of its UTF-8 encoding, one \<open>char\<close> a byte: ASCII
    text is itself, \<^verbatim>\<open>U+00E9\<close> is the two bytes \<^verbatim>\<open>C3 A9\<close>. A JavaScript string may
    also hold a lone surrogate; it is written with the three bytes of its code point
    (\<^verbatim>\<open>U+D800\<close> is \<^verbatim>\<open>ED A0 80\<close>), and this is the only way a string of the program
    is not well-formed UTF-8.
  \<^item> An \<^verbatim>\<open>ArrayBuffer\<close> is its list of bytes.
  \<^item> An array is its list of elements together with the named properties that were
    assigned to the array object (none after \<^verbatim>\<open>JSON.parse\<close>).
  \<^item> An object is the association list of its own properties; the first entry of a
    name is the property.
\<close>

type_synonym bytes = "8 word list"

datatype jsval =
    JUndefined
  | JNull
  | JBool bool
  | JNum rat
  | JStr string
  | JBuf bytes
  | JArr "jsval list" "(string \<times> jsval) list"
  | JObj "(string \<times> jsval) list"

abbreviation JList :: "jsval list \<Rightarrow> jsval" where
  "JList xs \<equiv> JArr xs []"

text \<open>
  What the program can throw or reject with: a \<^verbatim>\<open>TypeError\<close> of the language, the
  \<^verbatim>\<open>URIError\<close> of \<^verbatim>\<open>encodeURIComponent\<close>, a value thrown by \<^verbatim>\<open>throw\<close>, the decode
  failure of the codec, and a rejection of a collaborator (the network, the body
  parser, the authenticator) named by a text.
\<close>

datatype reason =
    TypeError
  | URIError
  | Thrown jsval
  | MalformedEncodingError
  | Rejected string

text \<open>
  A byte \<^verbatim>\<open>80\<close> to \<^verbatim>\<open>BF\<close> continues a code point. The \<^verbatim>\<open>length\<close> of a string counts
  UTF-16 code units: one for every code point, two when its first byte is \<^verbatim>\<open>F0\<close> or
  above. Iterating a string visits its code points.
\<close>

definition is_continuation :: "char \<Rightarrow> bool" where
  "is_continuation c \<longleftrightarrow> (128::nat) \<le> of_char c \<and> (of_char c :: nat) < 192"

definition utf16_length :: "string \<Rightarrow> nat" where
  "utf16_length s =
     length (filter (\<lambda>c. \<not> is_continuation c) s) +
     length (filter (\<lambda>c. (240::nat) \<le> of_char c) s)"

fun code_points :: "string \<Rightarrow> string list" where
  "code_points [] = []"
| "code_points (c # cs) =
     (case code_points cs of
        [] \<Rightarrow> [[c]]
      | g # gs \<Rightarrow>
          if (case g of [] \<Rightarrow> False | d # ds \<Rightarrow> is_continuation d) then (c # g) # gs
          else [c] # g # gs)"

text \<open>\<^verbatim>\<open>ToBoolean\<close>, as \<^verbatim>\<open>if (v)\<close> and \<^verbatim>\<open>v && ...\<close> apply it.\<close>

fun truthy :: "jsval \<Rightarrow> bool" where
  "truthy JUndefined = False"
| "truthy JNull = False"
| "truthy (JBool b) = b"
| "truthy (JNum n) = (n \<noteq> 0)"
| "truthy (JStr s) = (s \<noteq> [])"
| "truthy (JBuf b) = True"
| "truthy (JArr xs ps) = True"
| "truthy (JObj ps) = True"

definition lookup :: "(string \<times> jsval) list \<Rightarrow> string \<Rightarrow> jsval" where
  "lookup ps k = (case map_of ps k of None \<Rightarrow> JUndefined | Some v \<Rightarrow> v)"

text \<open>
  Reading a property, \<^verbatim>\<open>v.k\<close>. On \<^verbatim>\<open>undefined\<close> and \<^verbatim>\<open>null\<close> it is a TypeError. The
  program reads the names \<^verbatim>\<open>user\<close>, \<^verbatim>\<open>id\<close>, \<^verbatim>\<open>challenge\<close>, \<^verbatim>\<open>excludeCredentials\<close>,
  \<^verbatim>\<open>allowCredentials\<close>, \<^verbatim>\<open>length\<close>, \<^verbatim>\<open>error\<close> and the members of an authenticator
  response; none of them is inherited from a prototype, and only \<^verbatim>\<open>length\<close> is built
  into arrays and strings.
\<close>

fun get_prop :: "jsval \<Rightarrow> string \<Rightarrow> reason + jsval" where
  "get_prop JUndefined k = Inl TypeError"
| "get_prop JNull k = Inl TypeError"
| "get_prop (JBool b) k = Inr JUndefined"
| "get_prop (JNum n) k = Inr JUndefined"
| "get_prop (JStr s) k =
     Inr (if k = ''length'' then JNum (of_nat (utf16_length s)) else JUndefined)"
| "get_prop (JBuf b) k = Inr JUndefined"
| "get_prop (JArr xs ps) k =
     Inr (if k = ''length'' then JNum (of_nat (length xs)) else lookup ps k)"
| "get_prop (JObj ps) k = Inr (lookup ps k)"

text \<open>
  Assigning a property, \<^verbatim>\<open>v.k = x\<close>, in strict mode (the file is a module): a TypeError
  on \<^verbatim>\<open>undefined\<close>, \<^verbatim>\<open>null\<close> and on a primitive value; on an object or an array the
  property is replaced where it stands or added at the end. The program assigns only
  \<^verbatim>\<open>id\<close> and \<^verbatim>\<open>challenge\<close>. A buffer is never the target of an assignment of the
  program when the values come from \<^verbatim>\<open>JSON.parse\<close>; its own properties are not
  represented.
\<close>

fun set_prop :: "jsval \<Rightarrow> string \<Rightarrow> jsval \<Rightarrow> reason + jsval" where
  "set_prop JUndefined k x = Inl TypeError"
| "set_prop JNull k x = Inl TypeError"
| "set_prop (JBool b) k x = Inl TypeError"
| "set_prop (JNum n) k x = Inl TypeError"
| "set_prop (JStr s) k x = Inl TypeError"
| "set_prop (JBuf b) k x = Inr (JBuf b)"
| "set_prop (JArr xs ps) k x = Inr (JArr xs (AList.update k x ps))"
| "set_prop (JObj ps) k x = Inr (JObj (AList.update k x ps))"

text \<open>
  The object \<open>v\<close> seen again after the object held in its property \<open>k\<close> was changed in
  place into \<open>x\<close>: JavaScript objects are shared by reference, the model rebuilds the
  parent.
\<close>

fun with_member :: "jsval \<Rightarrow> string \<Rightarrow> jsval \<Rightarrow> jsval" where
  "with_member (JObj ps) k x = JObj (AList.update k x ps)"
| "with_member (JArr xs ps) k x = JArr xs (AList.update k x ps)"
| "with_member v k x = v"

text \<open>
  The elements \<^verbatim>\<open>for (... of v)\<close> visits: those of an array, the code points of a
  string; nothing else among these values is iterable.
\<close>

fun iterable :: "jsval \<Rightarrow> reason + jsval list" where
  "iterable (JArr xs ps) = Inr xs"
| "iterable (JStr s) = Inr (map JStr (code_points s))"
| "iterable v = Inl TypeError"

text \<open>An array seen again after its element objects were changed in place.\<close>

fun with_elements :: "jsval \<Rightarrow> jsval list \<Rightarrow> jsval" where
  "with_elements (JArr xs ps) ys = JArr ys ps"
| "with_elements v ys = v"

text \<open>
  \<^verbatim>\<open>encodeURIComponent\<close>. It throws a \<^verbatim>\<open>URIError\<close> when the string holds a lone
  surrogate, that is, when its bytes are not well-formed UTF-8 (the table of
  well-formed byte sequences of the Unicode standard). Otherwise the unreserved
  characters stay and every other byte of the UTF-8 encoding becomes \<^verbatim>\<open>%XX\<close>.
\<close>

definition continues :: "nat \<Rightarrow> bool" where
  "continues b \<longleftrightarrow> 128 \<le> b \<and> b \<le> 191"

fun well_formed_utf8 :: "nat list \<Rightarrow> bool" where
  "well_formed_utf8 [] = True"
| "well_formed_utf8 (a # bs) =
     (if a < 128 then well_formed_utf8 bs
      else if 194 \<le> a \<and> a \<le> 223 then
        (case bs of
           b # r \<Rightarrow> continues b \<and> well_formed_utf8 r
         | _ \<Rightarrow> False)
      else if 224 \<le> a \<and> a \<le> 239 then
        (case bs of
           b # c # r \<Rightarrow>
             (if a = 224 then 160 \<le> b \<and> b \<le> 191
              else if a = 237 then 128 \<le> b \<and> b \<le> 159
              else continues b) \<and>
             continues c \<and> well_formed_utf8 r
         | _ \<Rightarrow> False)
      else if 240 \<le> a \<and> a \<le> 244 then
        (case bs of
           b # c # d # r \<Rightarrow>
             (if a = 240 then 144 \<le> b \<and> b \<le> 191
              else if a = 244 then 128 \<le> b \<and> b \<le> 143
              else continues b) \<and>
             continues c \<and> continues d \<and> well_formed_utf8 r
         | _ \<Rightarrow> False)
      else False)"

definition uri_unreserved :: "char \<Rightarrow> bool" where
  "uri_unreserved c \<longleftrightarrow>
     c \<in> set (''ABCDEFGHIJKLMNOPQRSTUVWXYZabcdefghijklmnopqrstuvwxyz0123456789-_.!~*()''
              @ [CHR 0x27])"

definition hex_digit :: "nat \<Rightarrow> char" where
  "hex_digit n = ''0123456789ABCDEF'' ! (n mod 16)"

definition percent_encoded :: "char \<Rightarrow> string" where
  "percent_encoded c =
     (if uri_unreserved c then [c]
      else [CHR ''%'', hex_digit (of_char c div 16), hex_digit (of_char c)])"

definition encodeURIComponent :: "string \<Rightarrow> reason + string" where
  "encodeURIComponent s =
     (if well_formed_utf8 (map of_char s) then Inr (concat (map percent_encoded s))
      else Inl URIError)"

section \<open>Collaborators\<close>

text \<open>
  The payload of a request of the Transport Adapter: a value, or a \<^verbatim>\<open>FormData\<close> object
  (the only thing the adapter asks of it is \<^verbatim>\<open>instanceof FormData\<close>).
\<close>

datatype payload = Value jsval | FormData

text \<open>
  The body handed to \<^verbatim>\<open>fetch\<close>: the text \<^verbatim>\<open>JSON.stringify\<close> makes of a value (kept as
  the value), or the payload as it is.
\<close>

datatype body = JsonText jsval | AsIs payload

record request =
  req_path :: string
  req_method :: string
  req_credentials :: string
  req_headers :: "(string \<times> string) list"
  req_body :: body

text \<open>A response: its status and what \<^verbatim>\<open>res.json()\<close> settles with.\<close>

record response =
  res_status :: nat
  res_json :: "reason + jsval"

text \<open>
  The credential the platform capability resolves with (a \<^verbatim>\<open>PublicKeyCredential\<close>):
  \<^verbatim>\<open>id\<close> and \<^verbatim>\<open>type\<close> are strings, \<^verbatim>\<open>rawId\<close> a buffer, \<^verbatim>\<open>response\<close> the response bundle
  (\<open>JUndefined\<close> when absent).
\<close>

record credential =
  cred_id :: string
  cred_rawId :: jsval
  cred_type :: string
  cred_response :: jsval

text \<open>
  Everything outside the file is a parameter: the server behind \<^verbatim>\<open>fetch\<close>, the
  platform capability \<^verbatim>\<open>navigator.credentials\<close>, and the codec \<^verbatim>\<open>base64url\<close>, a library
  the page loads. Decoding may throw; encoding is total (section 4.2 of the
  specification).
\<close>

record env =
  server :: "request \<Rightarrow> reason + response"
  platform_create :: "jsval \<Rightarrow> reason + credential"
  platform_get :: "jsval \<Rightarrow> reason + credential"
  codec_decode :: "jsval \<Rightarrow> reason + bytes"
  codec_encode :: "jsval \<Rightarrow> string"

text \<open>Every call the program makes to a collaborator, in order.\<close>

datatype event =
    Fetch request
  | GetItem string
  | SetItem string string
  | RemoveItem string
  | Decode jsval
  | Encode jsval
  | Create jsval
  | Get jsval
  | ConsoleInfo string

section \<open>Asynchronous functions\<close>

text \<open>
  An \<^verbatim>\<open>async\<close> function runs from one \<^verbatim>\<open>await\<close> to the next without interleaving
  inside one ceremony. It is a function from the contents of \<^verbatim>\<open>localStorage\<close> to the
  way its promise settles (\<open>Inr\<close> resolved, \<open>Inl\<close> rejected), the new contents of
  \<^verbatim>\<open>localStorage\<close> and the events it caused.
\<close>

type_synonym storage = "string \<rightharpoonup> string"

type_synonym 'a io = "storage \<Rightarrow> (reason + 'a) \<times> storage \<times> event list"

definition return_io :: "'a \<Rightarrow> 'a io" where
  "return_io x = (\<lambda>s. (Inr x, s, []))"

definition throw_io :: "reason \<Rightarrow> 'a io" where
  "throw_io e = (\<lambda>s. (Inl e, s, []))"

definition lift_io :: "reason + 'a \<Rightarrow> 'a io" where
  "lift_io r = (\<lambda>s. (r, s, []))"

definition bind_io :: "'a io \<Rightarrow> ('a \<Rightarrow> 'b io) \<Rightarrow> 'b io" where
  "bind_io m f = (\<lambda>s.
     case m s of
       (Inl e, s', es) \<Rightarrow> (Inl e, s', es)
     | (Inr x, s', es) \<Rightarrow> (case f x s' of (r, s'', es') \<Rightarrow> (r, s'', es @ es')))"

definition result_of :: "(reason + 'a) \<times> storage \<times> event list \<Rightarrow> reason + 'a" where
  "result_of out = fst out"

definition storage_of :: "(reason + 'a) \<times> storage \<times> event list \<Rightarrow> storage" where
  "storage_of out = fst (snd out)"

definition events_of :: "(reason + 'a) \<times> storage \<times> event list \<Rightarrow> event list" where
  "events_of out = snd (snd out)"

definition fetch :: "env \<Rightarrow> request \<Rightarrow> response io" where
  "fetch env req = (\<lambda>s. (server env req, s, [Fetch req]))"

definition navigator_credentials_create :: "env \<Rightarrow> jsval \<Rightarrow> credential io" where
  "navigator_credentials_create env opts = (\<lambda>s. (platform_create env opts, s, [Create opts]))"

definition navigator_credentials_get :: "env \<Rightarrow> jsval \<Rightarrow> credential io" where
  "navigator_credentials_get env opts = (\<lambda>s. (platform_get env opts, s, [Get opts]))"

definition base64url_decode :: "env \<Rightarrow> jsval \<Rightarrow> bytes io" where
  "base64url_decode env v = (\<lambda>s. (codec_decode env v, s, [Decode v]))"

definition base64url_encode :: "env \<Rightarrow> jsval \<Rightarrow> string io" where
  "base64url_encode env v = (\<lambda>s. (Inr (codec_encode env v), s, [Encode v]))"

definition localStorage_getItem :: "string \<Rightarrow> string option io" where
  "localStorage_getItem k = (\<lambda>s. (Inr (s k), s, [GetItem k]))"

definition localStorage_setItem :: "string \<Rightarrow> string \<Rightarrow> unit io" where
  "localStorage_setItem k v = (\<lambda>s. (Inr (), s(k \<mapsto> v), [SetItem k v]))"

definition localStorage_removeItem :: "string \<Rightarrow> unit io" where
  "localStorage_removeItem k = (\<lambda>s. (Inr (), s(k := None), [RemoveItem k]))"

definition console_info :: "string \<Rightarrow> unit io" where
  "console_info msg = (\<lambda>s. (Inr (), s, [ConsoleInfo msg]))"

section \<open>The Transport Adapter\<close>

text \<open>
  Lines 17 to 30 of \<^verbatim>\<open>_fetch\<close>: the request. The parameter default \<^verbatim>\<open>payload = ""\<close>
  applies when the argument is \<^verbatim>\<open>undefined\<close>.
\<close>

definition request_of :: "string \<Rightarrow> payload \<Rightarrow> request" where
  "request_of path payload0 =
     (let payload = (if payload0 = Value JUndefined then Value (JStr []) else payload0);
          headers = [(''X-Requested-With'', ''XMLHttpRequest'')];
          json = (case payload of Value v \<Rightarrow> truthy v | FormData \<Rightarrow> False)
      in \<lparr> req_path = path,
           req_method = ''POST'',
           req_credentials = ''same-origin'',
           req_headers =
             (if json then AList.update ''Content-Type'' ''application/json'' headers
              else headers),
           req_body =
             (case payload of
                Value v \<Rightarrow> if json then JsonText v else AsIs payload
              | FormData \<Rightarrow> AsIs payload) \<rparr>)"

text \<open>Lines 31 to 38: the status decides between the body and its \<^verbatim>\<open>error\<close>.\<close>

definition u_fetch :: "env \<Rightarrow> string \<Rightarrow> payload \<Rightarrow> jsval io" where
  "u_fetch env path payload =
     bind_io (fetch env (request_of path payload)) (\<lambda>res.
       if res_status res = 200 then lift_io (res_json res)
       else
         bind_io (lift_io (res_json res)) (\<lambda>result.
         bind_io (lift_io (get_prop result ''error'')) (\<lambda>err.
         throw_io (Thrown err))))"

section \<open>Registration\<close>

definition register_opts :: jsval where
  "register_opts =
     JObj [(''attestation'', JStr ''none''),
           (''authenticatorSelection'',
            JObj [(''authenticatorAttachment'', JStr ''platform''),
                  (''userVerification'', JStr ''required''),
                  (''requireResistantKey'', JBool False)])]"

text \<open>The loop body \<^verbatim>\<open>cred.id = base64url.decode(cred.id)\<close>, and the loop.\<close>

definition decode_id :: "env \<Rightarrow> jsval \<Rightarrow> jsval io" where
  "decode_id env cred =
     bind_io (lift_io (get_prop cred ''id'')) (\<lambda>i.
     bind_io (base64url_decode env i) (\<lambda>b.
     lift_io (set_prop cred ''id'' (JBuf b))))"

fun decode_ids :: "env \<Rightarrow> jsval list \<Rightarrow> jsval list io" where
  "decode_ids env [] = return_io []"
| "decode_ids env (cred # rest) =
     bind_io (decode_id env cred) (\<lambda>cred'.
     bind_io (decode_ids env rest) (\<lambda>rest'.
     return_io (cred' # rest')))"

definition decode_each_id :: "env \<Rightarrow> jsval \<Rightarrow> jsval io" where
  "decode_each_id env creds =
     bind_io (lift_io (iterable creds)) (\<lambda>xs.
     bind_io (decode_ids env xs) (\<lambda>xs'.
     return_io (with_elements creds xs')))"

text \<open>Lines 72 to 78: the options are decoded in place.\<close>

definition register_decode :: "env \<Rightarrow> jsval \<Rightarrow> jsval io" where
  "register_decode env options0 =
     bind_io (lift_io (get_prop options0 ''user'')) (\<lambda>user.
     bind_io (lift_io (get_prop user ''id'')) (\<lambda>uid.
     bind_io (base64url_decode env uid) (\<lambda>b.
     bind_io (lift_io (set_prop user ''id'' (JBuf b))) (\<lambda>user'.
     let options1 = with_member options0 ''user'' user' in
     bind_io (lift_io (get_prop options1 ''challenge'')) (\<lambda>ch.
     bind_io (base64url_decode env ch) (\<lambda>c.
     bind_io (lift_io (set_prop options1 ''challenge'' (JBuf c))) (\<lambda>options2.
     bind_io (lift_io (get_prop options2 ''excludeCredentials'')) (\<lambda>excl.
     if truthy excl then
       bind_io (decode_each_id env excl) (\<lambda>excl'.
       return_io (with_member options2 ''excludeCredentials'' excl'))
     else return_io options2))))))))"

text \<open>Lines 88 to 99: the credential is encoded into a fresh object.\<close>

definition register_encode :: "env \<Rightarrow> credential \<Rightarrow> jsval io" where
  "register_encode env cred =
     bind_io (base64url_encode env (cred_rawId cred)) (\<lambda>rawId.
     let credential = [(''id'', JStr (cred_id cred)),
                       (''rawId'', JStr rawId),
                       (''type'', JStr (cred_type cred))] in
     if truthy (cred_response cred) then
       bind_io (lift_io (get_prop (cred_response cred) ''clientDataJSON'')) (\<lambda>cd.
       bind_io (base64url_encode env cd) (\<lambda>clientDataJSON.
       bind_io (lift_io (get_prop (cred_response cred) ''attestationObject'')) (\<lambda>ao.
       bind_io (base64url_encode env ao) (\<lambda>attestationObject.
       return_io (JObj (credential @
         [(''response'', JObj [(''clientDataJSON'', JStr clientDataJSON),
                               (''attestationObject'', JStr attestationObject)])]))))))
     else return_io (JObj credential))"

definition registerCredential :: "env \<Rightarrow> jsval io" where
  "registerCredential env =
     bind_io (u_fetch env ''/auth/registerRequest'' (Value register_opts)) (\<lambda>options0.
     bind_io (register_decode env options0) (\<lambda>options.
     bind_io (navigator_credentials_create env (JObj [(''publicKey'', options)])) (\<lambda>cred.
     bind_io (register_encode env cred) (\<lambda>credential.
     bind_io (localStorage_setItem ''credId'' (cred_id cred)) (\<lambda>_.
     u_fetch env ''/auth/registerResponse'' (Value credential))))))"

section \<open>Unregistration\<close>

text \<open>
  The slot is removed first; the path is built next, where \<^verbatim>\<open>encodeURIComponent\<close> may
  throw, and only then is \<^verbatim>\<open>_fetch\<close> called.
\<close>

definition unregisterCredential :: "env \<Rightarrow> string \<Rightarrow> jsval io" where
  "unregisterCredential env credId =
     bind_io (localStorage_removeItem ''credId'') (\<lambda>_.
     bind_io (lift_io (encodeURIComponent credId)) (\<lambda>encoded.
     u_fetch env (''/auth/removeKey?credId='' @ encoded) (Value JUndefined)))"

section \<open>Authentication\<close>

text \<open>
  Lines 123 to 128: the stored identifier joins the path when it is truthy;
  \<^verbatim>\<open>encodeURIComponent\<close> may throw there.
\<close>

definition signin_url :: "string option \<Rightarrow> reason + string" where
  "signin_url credId =
     (case credId of
        None \<Rightarrow> Inr ''/auth/signinRequest''
      | Some c \<Rightarrow>
          if c \<noteq> [] then
            (case encodeURIComponent c of
               Inl e \<Rightarrow> Inl e
             | Inr encoded \<Rightarrow> Inr (''/auth/signinRequest'' @ ''?credId='' @ encoded))
          else Inr ''/auth/signinRequest'')"

text \<open>Lines 142 to 146.\<close>

definition authenticate_decode :: "env \<Rightarrow> jsval \<Rightarrow> jsval io" where
  "authenticate_decode env options0 =
     bind_io (lift_io (get_prop options0 ''challenge'')) (\<lambda>ch.
     bind_io (base64url_decode env ch) (\<lambda>c.
     bind_io (lift_io (set_prop options0 ''challenge'' (JBuf c))) (\<lambda>options1.
     bind_io (lift_io (get_prop options1 ''allowCredentials'')) (\<lambda>allow.
     bind_io (decode_each_id env allow) (\<lambda>allow'.
     return_io (with_member options1 ''allowCredentials'' allow'))))))"

text \<open>Lines 153 to 169.\<close>

definition authenticate_encode :: "env \<Rightarrow> credential \<Rightarrow> jsval io" where
  "authenticate_encode env cred =
     bind_io (base64url_encode env (cred_rawId cred)) (\<lambda>rawId.
     let credential = [(''id'', JStr (cred_id cred)),
                       (''type'', JStr (cred_type cred)),
                       (''rawId'', JStr rawId)] in
     if truthy (cred_response cred) then
       bind_io (lift_io (get_prop (cred_response cred) ''clientDataJSON'')) (\<lambda>cd.
       bind_io (base64url_encode env cd) (\<lambda>clientDataJSON.
       bind_io (lift_io (get_prop (cred_response cred) ''authenticatorData'')) (\<lambda>ad.
       bind_io (base64url_encode env ad) (\<lambda>authenticatorData.
       bind_io (lift_io (get_prop (cred_response cred) ''signature'')) (\<lambda>sg.
       bind_io (base64url_encode env sg) (\<lambda>signature.
       bind_io (lift_io (get_prop (cred_response cred) ''userHandle'')) (\<lambda>uh.
       bind_io (base64url_encode env uh) (\<lambda>userHandle.
       return_io (JObj (credential @
         [(''response'', JObj [(''clientDataJSON'', JStr clientDataJSON),
                               (''authenticatorData'', JStr authenticatorData),
                               (''signature'', JStr signature),
                               (''userHandle'', JStr userHandle)])]))))))))))
     else return_io (JObj credential))"

definition authenticate :: "env \<Rightarrow> jsval io" where
  "authenticate env =
     bind_io (localStorage_getItem ''credId'') (\<lambda>credId.
     bind_io (lift_io (signin_url credId)) (\<lambda>url.
     bind_io (u_fetch env url (Value (JObj []))) (\<lambda>options0.
     bind_io (lift_io (get_prop options0 ''allowCredentials'')) (\<lambda>allow.
     bind_io (lift_io (get_prop allow ''length'')) (\<lambda>len.
     if len = JNum 0 then
       bind_io (console_info ''No registered credentials found.'') (\<lambda>_.
       return_io JNull)
     else
       bind_io (authenticate_decode env options0) (\<lambda>options.
       bind_io (navigator_credentials_get env (JObj [(''publicKey'', options)])) (\<lambda>cred.
       bind_io (authenticate_encode env cred) (\<lambda>credential.
       u_fetch env ''/auth/signinResponse'' (Value credential)))))))))"

section \<open>A codec and sample collaborators\<close>

text \<open>
  Modelled from the spec: the Binary Codec of section 4.2, which is not among the
  sources (\<^verbatim>\<open>base64url\<close> is a library the page loads). Url-safe base64 without padding:
  \<open>spec_decode\<close> fails with \<open>MalformedEncodingError\<close> on a character outside the
  alphabet (and on anything that is not text), \<open>spec_encode\<close> is total. The program
  is verified for every codec; this one serves the concrete ceremonies below.
\<close>

definition base64url_alphabet :: string where
  "base64url_alphabet = ''ABCDEFGHIJKLMNOPQRSTUVWXYZabcdefghijklmnopqrstuvwxyz0123456789-_''"

fun index_of :: "'a \<Rightarrow> 'a list \<Rightarrow> nat" where
  "index_of x [] = 0"
| "index_of x (y # ys) = (if x = y then 0 else Suc (index_of x ys))"

fun bytes_of_sextets :: "nat list \<Rightarrow> bytes" where
  "bytes_of_sextets (a # b # c # d # rest) =
     of_nat (a * 4 + b div 16) # of_nat ((b mod 16) * 16 + c div 4) # of_nat ((c mod 4) * 64 + d)
       # bytes_of_sextets rest"
| "bytes_of_sextets [a, b, c] = [of_nat (a * 4 + b div 16), of_nat ((b mod 16) * 16 + c div 4)]"
| "bytes_of_sextets [a, b] = [of_nat (a * 4 + b div 16)]"
| "bytes_of_sextets [a] = []"
| "bytes_of_sextets [] = []"

fun sextets_of_bytes :: "nat list \<Rightarrow> nat list" where
  "sextets_of_bytes (a # b # c # rest) =
     (a div 4) # ((a mod 4) * 16 + b div 16) # ((b mod 16) * 4 + c div 64) # (c mod 64)
       # sextets_of_bytes rest"
| "sextets_of_bytes [a, b] = [a div 4, (a mod 4) * 16 + b div 16, (b mod 16) * 4]"
| "sextets_of_bytes [a] = [a div 4, (a mod 4) * 16]"
| "sextets_of_bytes [] = []"

definition spec_decode :: "jsval \<Rightarrow> reason + bytes" where
  "spec_decode v =
     (case v of
        JStr s \<Rightarrow>
          if list_all (\<lambda>c. c \<in> set base64url_alphabet) s
          then Inr (bytes_of_sextets (map (\<lambda>c. index_of c base64url_alphabet) s))
          else Inl MalformedEncodingError
      | _ \<Rightarrow> Inl MalformedEncodingError)"

definition spec_encode :: "jsval \<Rightarrow> string" where
  "spec_encode v =
     (case v of
        JBuf b \<Rightarrow> map (\<lambda>n. base64url_alphabet ! n) (sextets_of_bytes (map unat b))
      | _ \<Rightarrow> [])"

text \<open>
  A server that answers by path, a response with status 200 and one with another
  status, and an authenticator that resolves with a fixed credential.
\<close>

definition server_of :: "(string \<times> response) list \<Rightarrow> request \<Rightarrow> reason + response" where
  "server_of table req =
     (case map_of table (req_path req) of
        None \<Rightarrow> Inl (Rejected ''network'')
      | Some res \<Rightarrow> Inr res)"

definition ok :: "jsval \<Rightarrow> response" where
  "ok v = \<lparr> res_status = 200, res_json = Inr v \<rparr>"

definition failed :: "nat \<Rightarrow> jsval \<Rightarrow> response" where
  "failed code v = \<lparr> res_status = code, res_json = Inr v \<rparr>"

definition sample_env :: "(string \<times> response) list \<Rightarrow> credential \<Rightarrow> env" where
  "sample_env table cred =
     \<lparr> server = server_of table,
       platform_create = (\<lambda>_. Inr cred),
       platform_get = (\<lambda>_. Inr cred),
       codec_decode = spec_decode,
       codec_encode = spec_encode \<rparr>"

definition attested :: credential where
  "attested =
     \<lparr> cred_id = ''abc'',
       cred_rawId = JBuf [105, 183],
       cred_type = ''public-key'',
       cred_response = JObj [(''clientDataJSON'', JBuf [117, 115, 101, 114]),
                             (''attestationObject'', JBuf [99, 104, 97])] \<rparr>"

definition bare :: credential where
  "bare = attested \<lparr> cred_response := JUndefined \<rparr>"

definition asserted :: credential where
  "asserted =
     \<lparr> cred_id = ''abc'',
       cred_rawId = JBuf [105, 183],
       cred_type = ''public-key'',
       cred_response = JObj [(''clientDataJSON'', JBuf [117, 115, 101, 114]),
                             (''authenticatorData'', JBuf [99, 104, 97]),
                             (''signature'', JBuf [97, 98, 99]),
                             (''userHandle'', JNull)] \<rparr>"

text \<open>
  Registration options as the server sends them (the example of section 8 of the
  specification, with one excluded credential), the same after decoding, without
  the list, and with a challenge that is not url-safe base64.
\<close>

definition registration_options :: jsval where
  "registration_options =
     JObj [(''user'', JObj [(''id'', JStr ''dXNlcg''), (''name'', JStr ''user'')]),
           (''challenge'', JStr ''Y2hhbGxlbmdl''),
           (''excludeCredentials'',
            JList [JObj [(''id'', JStr ''YWJj''), (''type'', JStr ''public-key'')]])]"

definition registration_options_decoded :: jsval where
  "registration_options_decoded =
     JObj [(''user'', JObj [(''id'', JBuf [117, 115, 101, 114]), (''name'', JStr ''user'')]),
           (''challenge'', JBuf [99, 104, 97, 108, 108, 101, 110, 103, 101]),
           (''excludeCredentials'',
            JList [JObj [(''id'', JBuf [97, 98, 99]), (''type'', JStr ''public-key'')]])]"

definition registration_options_unlisted :: jsval where
  "registration_options_unlisted =
     JObj [(''user'', JObj [(''id'', JStr ''dXNlcg'')]),
           (''challenge'', JStr ''Y2hhbGxlbmdl'')]"

definition registration_options_malformed :: jsval where
  "registration_options_malformed =
     JObj [(''user'', JObj [(''id'', JStr ''dXNlcg'')]),
           (''challenge'', JStr ''not base64!!''),
           (''excludeCredentials'', JList [])]"

text \<open>
  Authentication options: with no credential, with no credential and a malformed
  challenge, and with two allowed credentials.
\<close>

definition signin_options_empty :: jsval where
  "signin_options_empty =
     JObj [(''challenge'', JStr ''Y2hhbGxlbmdl''), (''allowCredentials'', JList [])]"

definition signin_options_malformed :: jsval where
  "signin_options_malformed =
     JObj [(''challenge'', JStr ''not base64!!''), (''allowCredentials'', JList [])]"

definition signin_options_two :: jsval where
  "signin_options_two =
     JObj [(''challenge'', JStr ''Y2hhbGxlbmdl''),
           (''allowCredentials'',
            JList [JObj [(''id'', JStr ''dXNlcg''), (''type'', JStr ''public-key'')],
                   JObj [(''id'', JStr ''YWJj''), (''type'', JStr ''public-key'')]])]"

definition signin_options_two_decoded :: jsval where
  "signin_options_two_decoded =
     JObj [(''challenge'', JBuf [99, 104, 97, 108, 108, 101, 110, 103, 101]),
           (''allowCredentials'',
            JList [JObj [(''id'', JBuf [117, 115, 101, 114]), (''type'', JStr ''public-key'')],
                   JObj [(''id'', JBuf [97, 98, 99]), (''type'', JStr ''public-key'')]])]"

text \<open>
  The collaborators of the concrete ceremonies: a registration the server rejects at
  the end, one with a credential without response bundle, one whose options have no
  exclude list, one whose challenge is malformed; an authentication with no
  credential, one with no credential and a malformed challenge, one with two allowed
  credentials.
\<close>

definition env_rejecting :: env where
  "env_rejecting =
     sample_env [(''/auth/registerRequest'', ok registration_options),
                 (''/auth/registerResponse'',
                  failed 400 (JObj [(''error'', JStr ''bad challenge'')]))] attested"

definition env_bare :: env where
  "env_bare =
     sample_env [(''/auth/registerRequest'', ok registration_options),
                 (''/auth/registerResponse'', ok (JObj [(''ok'', JBool True)]))] bare"

definition env_unlisted :: env where
  "env_unlisted =
     sample_env [(''/auth/registerRequest'', ok registration_options_unlisted)] attested"

definition env_malformed :: env where
  "env_malformed =
     sample_env [(''/auth/registerRequest'', ok registration_options_malformed)] attested"

definition env_no_credential :: env where
  "env_no_credential =
     sample_env [(''/auth/signinRequest?credId=abc'', ok signin_options_empty)] asserted"

definition env_no_credential_malformed :: env where
  "env_no_credential_malformed =
     sample_env [(''/auth/signinRequest'', ok signin_options_malformed)] asserted"

definition env_two_credentials :: env where
  "env_two_credentials =
     sample_env [(''/auth/signinRequest?credId=abc'', ok signin_options_two),
                 (''/auth/signinResponse'', ok (JObj [(''ok'', JBool True)]))] asserted"

section \<open>Reading an event list\<close>

fun requests_of :: "event list \<Rightarrow> request list" where
  "requests_of [] = []"
| "requests_of (Fetch r # es) = r # requests_of es"
| "requests_of (e # es) = requests_of es"

fun is_storage_write :: "event \<Rightarrow> bool" where
  "is_storage_write (SetItem k v) = True"
| "is_storage_write (RemoveItem k) = True"
| "is_storage_write e = False"

fun is_request_to :: "string \<Rightarrow> event \<Rightarrow> bool" where
  "is_request_to p (Fetch r) = (req_path r = p)"
| "is_request_to p e = False"

fun is_decode :: "event \<Rightarrow> bool" where
  "is_decode (Decode v) = True"
| "is_decode e = False"

fun is_encode :: "event \<Rightarrow> bool" where
  "is_encode (Encode v) = True"
| "is_encode e = False"

fun is_platform_call :: "event \<Rightarrow> bool" where
  "is_platform_call (Create a) = True"
| "is_platform_call (Get a) = True"
| "is_platform_call e = False"

text \<open>The member \<^verbatim>\<open>authenticatorSelection\<close> of a parameters object.\<close>

definition authenticatorSelection :: "jsval \<Rightarrow> jsval" where
  "authenticatorSelection opts =
     lookup (case opts of JObj ps \<Rightarrow> ps | _ \<Rightarrow> []) ''authenticatorSelection''"

text \<open>
  An entry of an exclude or allow list as the specification describes it: an object
  whose \<^verbatim>\<open>id\<close> is text the codec decodes. \<open>entry_id\<close> is that text, \<open>entry_decoded\<close>
  the entry with the binary identifier in its place.
\<close>

definition entry_id :: "jsval \<Rightarrow> jsval" where
  "entry_id cred = (case cred of JObj qs \<Rightarrow> lookup qs ''id'' | _ \<Rightarrow> JUndefined)"

definition decodable :: "env \<Rightarrow> jsval \<Rightarrow> bool" where
  "decodable env cred =
     (case cred of
        JObj qs \<Rightarrow>
          (case codec_decode env (lookup qs ''id'') of Inr b \<Rightarrow> True | Inl e \<Rightarrow> False)
      | _ \<Rightarrow> False)"

definition entry_decoded :: "env \<Rightarrow> jsval \<Rightarrow> jsval" where
  "entry_decoded env cred =
     (case cred of
        JObj qs \<Rightarrow>
          (case codec_decode env (lookup qs ''id'') of
             Inr b \<Rightarrow> JObj (AList.update ''id'' (JBuf b) qs)
           | Inl e \<Rightarrow> cred)
      | _ \<Rightarrow> cred)"

text \<open>
  A run that only decodes: it leaves the storage alone, causes decode events only, and
  a decode that failed is the reason it was rejected with.
\<close>

definition decode_phase ::
  "env \<Rightarrow> storage \<Rightarrow> (reason + 'a) \<times> storage \<times> event list \<Rightarrow> bool" where
  "decode_phase env s out \<longleftrightarrow>
     storage_of out = s \<and>
     list_all is_decode (events_of out) \<and>
     (\<forall>v e. Decode v \<in> set (events_of out) \<and> codec_decode env v = Inl e
            \<longrightarrow> result_of out = Inl e)"

section \<open>How the pieces run\<close>

lemma result_of_bind_io:
  "result_of (bind_io m f s) =
     (case result_of (m s) of
        Inl e \<Rightarrow> Inl e
      | Inr x \<Rightarrow> result_of (f x (storage_of (m s))))"
  by (simp add: bind_io_def result_of_def storage_of_def split: prod.splits sum.splits)

lemma storage_of_bind_io:
  "storage_of (bind_io m f s) =
     (case result_of (m s) of
        Inl e \<Rightarrow> storage_of (m s)
      | Inr x \<Rightarrow> storage_of (f x (storage_of (m s))))"
  by (simp add: bind_io_def result_of_def storage_of_def split: prod.splits sum.splits)

lemma events_of_bind_io:
  "events_of (bind_io m f s) =
     events_of (m s) @
     (case result_of (m s) of
        Inl e \<Rightarrow> []
      | Inr x \<Rightarrow> events_of (f x (storage_of (m s))))"
  by (simp add: bind_io_def events_of_def result_of_def storage_of_def
      split: prod.splits sum.splits)

lemmas bind_runs = result_of_bind_io storage_of_bind_io events_of_bind_io

lemma return_io_runs:
  "result_of (return_io x s) = Inr x"
  "storage_of (return_io x s) = s"
  "events_of (return_io x s) = []"
  by (simp_all add: result_of_def storage_of_def events_of_def return_io_def)

lemma throw_io_runs:
  "result_of (throw_io e s) = Inl e"
  "storage_of (throw_io e s) = s"
  "events_of (throw_io e s) = []"
  by (simp_all add: result_of_def storage_of_def events_of_def throw_io_def)

lemma lift_io_runs:
  "result_of (lift_io r s) = r"
  "storage_of (lift_io r s) = s"
  "events_of (lift_io r s) = []"
  by (simp_all add: result_of_def storage_of_def events_of_def lift_io_def)

lemma collaborator_runs:
  "result_of (base64url_decode env v s) = codec_decode env v"
  "storage_of (base64url_decode env v s) = s"
  "events_of (base64url_decode env v s) = [Decode v]"
  "result_of (base64url_encode env v s) = Inr (codec_encode env v)"
  "storage_of (base64url_encode env v s) = s"
  "events_of (base64url_encode env v s) = [Encode v]"
  "result_of (navigator_credentials_create env a s) = platform_create env a"
  "storage_of (navigator_credentials_create env a s) = s"
  "events_of (navigator_credentials_create env a s) = [Create a]"
  "result_of (navigator_credentials_get env a s) = platform_get env a"
  "storage_of (navigator_credentials_get env a s) = s"
  "events_of (navigator_credentials_get env a s) = [Get a]"
  "result_of (localStorage_getItem k s) = Inr (s k)"
  "storage_of (localStorage_getItem k s) = s"
  "events_of (localStorage_getItem k s) = [GetItem k]"
  "result_of (localStorage_setItem k x s) = Inr ()"
  "storage_of (localStorage_setItem k x s) = s(k \<mapsto> x)"
  "events_of (localStorage_setItem k x s) = [SetItem k x]"
  "result_of (localStorage_removeItem k s) = Inr ()"
  "storage_of (localStorage_removeItem k s) = s(k := None)"
  "events_of (localStorage_removeItem k s) = [RemoveItem k]"
  "result_of (console_info msg s) = Inr ()"
  "storage_of (console_info msg s) = s"
  "events_of (console_info msg s) = [ConsoleInfo msg]"
  by (simp_all add: result_of_def storage_of_def events_of_def
      base64url_decode_def base64url_encode_def navigator_credentials_create_def
      navigator_credentials_get_def localStorage_getItem_def localStorage_setItem_def
      localStorage_removeItem_def console_info_def)

lemmas primitive_runs = return_io_runs throw_io_runs lift_io_runs collaborator_runs

lemma run_eq:
  "out = (r, s', es) \<Longrightarrow>
   result_of out = r \<and> storage_of out = s' \<and> events_of out = es"
  by (simp add: result_of_def storage_of_def events_of_def)

lemma run_eqI:
  "result_of out = r \<Longrightarrow> storage_of out = s' \<Longrightarrow> events_of out = es \<Longrightarrow>
   out = (r, s', es)"
  by (auto simp: result_of_def storage_of_def events_of_def)

subsection \<open>The Transport Adapter\<close>

lemma u_fetch_run:
  "u_fetch env path payload s =
     ((case server env (request_of path payload) of
         Inl e \<Rightarrow> Inl e
       | Inr res \<Rightarrow>
           if res_status res = 200 then res_json res
           else (case res_json res of
                   Inl e \<Rightarrow> Inl e
                 | Inr body \<Rightarrow> (case get_prop body ''error'' of
                                  Inl e \<Rightarrow> Inl e
                                | Inr err \<Rightarrow> Inl (Thrown err)))),
      s, [Fetch (request_of path payload)])"
  by (simp add: u_fetch_def bind_io_def fetch_def lift_io_def throw_io_def
      split: sum.splits)

lemma result_of_u_fetch:
  "result_of (u_fetch env path payload s) =
     (case server env (request_of path payload) of
         Inl e \<Rightarrow> Inl e
       | Inr res \<Rightarrow>
           if res_status res = 200 then res_json res
           else (case res_json res of
                   Inl e \<Rightarrow> Inl e
                 | Inr body \<Rightarrow> (case get_prop body ''error'' of
                                  Inl e \<Rightarrow> Inl e
                                | Inr err \<Rightarrow> Inl (Thrown err))))"
  by (simp add: u_fetch_run result_of_def)

lemma storage_of_u_fetch: "storage_of (u_fetch env path payload s) = s"
  by (simp add: u_fetch_run storage_of_def)

lemma events_of_u_fetch:
  "events_of (u_fetch env path payload s) = [Fetch (request_of path payload)]"
  by (simp add: u_fetch_run events_of_def)

lemmas u_fetch_runs = result_of_u_fetch storage_of_u_fetch events_of_u_fetch

lemma req_path_request_of: "req_path (request_of p payload) = p"
  by (simp add: request_of_def Let_def)

subsection \<open>Decoding in place\<close>

lemma lookup_update: "lookup (AList.update k v ps) k' = (if k' = k then v else lookup ps k')"
  by (simp add: lookup_def update_conv')

lemma decode_id_ok:
  "decodable env cred \<Longrightarrow>
   decode_id env cred s = (Inr (entry_decoded env cred), s, [Decode (entry_id cred)])"
  by (auto simp: decodable_def entry_decoded_def entry_id_def decode_id_def bind_io_def
      lift_io_def base64url_decode_def split: jsval.splits sum.splits)

lemma decode_ids_ok:
  "list_all (decodable env) creds \<Longrightarrow>
   decode_ids env creds s =
     (Inr (map (entry_decoded env) creds), s, map (\<lambda>cred. Decode (entry_id cred)) creds)"
  by (induction creds) (simp_all add: return_io_def bind_io_def decode_id_ok)

lemma decode_each_id_ok:
  "list_all (decodable env) creds \<Longrightarrow>
   decode_each_id env (JArr creds xps) s =
     (Inr (JArr (map (entry_decoded env) creds) xps), s,
      map (\<lambda>cred. Decode (entry_id cred)) creds)"
  by (simp add: decode_each_id_def bind_io_def lift_io_def return_io_def decode_ids_ok)

lemma authenticate_decode_ok:
  assumes "lookup ps ''allowCredentials'' = JArr creds xps"
    and "codec_decode env (lookup ps ''challenge'') = Inr c"
    and "list_all (decodable env) creds"
  shows "authenticate_decode env (JObj ps) s =
     (Inr (JObj (AList.update ''allowCredentials'' (JArr (map (entry_decoded env) creds) xps)
                  (AList.update ''challenge'' (JBuf c) ps))),
      s,
      Decode (lookup ps ''challenge'') # map (\<lambda>cred. Decode (entry_id cred)) creds)"
  using assms
  by (simp add: authenticate_decode_def bind_io_def lift_io_def return_io_def
      base64url_decode_def lookup_update decode_each_id_ok)

lemma register_decode_listed:
  assumes "lookup ps ''user'' = JObj us"
    and "codec_decode env (lookup us ''id'') = Inr u"
    and "codec_decode env (lookup ps ''challenge'') = Inr c"
    and "lookup ps ''excludeCredentials'' = JArr creds xps"
    and "list_all (decodable env) creds"
  shows "register_decode env (JObj ps) s =
     (Inr (JObj (AList.update ''excludeCredentials'' (JArr (map (entry_decoded env) creds) xps)
                  (AList.update ''challenge'' (JBuf c)
                    (AList.update ''user'' (JObj (AList.update ''id'' (JBuf u) us)) ps)))),
      s,
      Decode (lookup us ''id'') # Decode (lookup ps ''challenge'')
        # map (\<lambda>cred. Decode (entry_id cred)) creds)"
  using assms
  by (simp add: register_decode_def bind_io_def lift_io_def return_io_def
      base64url_decode_def lookup_update decode_each_id_ok)

lemma register_decode_unlisted:
  assumes "lookup ps ''user'' = JObj us"
    and "codec_decode env (lookup us ''id'') = Inr u"
    and "codec_decode env (lookup ps ''challenge'') = Inr c"
    and "\<not> truthy (lookup ps ''excludeCredentials'')"
  shows "register_decode env (JObj ps) s =
     (Inr (JObj (AList.update ''challenge'' (JBuf c)
                  (AList.update ''user'' (JObj (AList.update ''id'' (JBuf u) us)) ps))),
      s,
      [Decode (lookup us ''id''), Decode (lookup ps ''challenge'')])"
  using assms
  by (simp add: register_decode_def bind_io_def lift_io_def return_io_def
      base64url_decode_def lookup_update)

subsection \<open>A decoding run only decodes\<close>

lemma decode_phase_bind:
  assumes "decode_phase env s (m s)"
    and "\<And>x. result_of (m s) = Inr x \<Longrightarrow> decode_phase env s (f x s)"
  shows "decode_phase env s (bind_io m f s)"
  using assms
  by (cases "result_of (m s)") (auto simp: decode_phase_def bind_runs)

lemma decode_phase_pure:
  "decode_phase env s (lift_io r s)" "decode_phase env s (return_io x s)"
  by (simp_all add: decode_phase_def primitive_runs)

lemma decode_phase_decode: "decode_phase env s (base64url_decode env v s)"
  by (simp add: decode_phase_def primitive_runs)

lemma decode_phase_if:
  "(c \<Longrightarrow> decode_phase env s (m s)) \<Longrightarrow> (\<not> c \<Longrightarrow> decode_phase env s (n s)) \<Longrightarrow>
   decode_phase env s ((if c then m else n) s)"
  by simp

lemma decode_phase_decode_id: "decode_phase env s (decode_id env cred s)"
  unfolding decode_id_def
  by (intro decode_phase_bind decode_phase_pure decode_phase_decode)

lemma decode_phase_decode_ids: "decode_phase env s (decode_ids env creds s)"
proof (induction creds)
  case Nil
  show ?case by (simp add: decode_phase_pure)
next
  case (Cons cred creds)
  show ?case
    unfolding decode_ids.simps
    by (intro decode_phase_bind decode_phase_pure decode_phase_decode_id Cons.IH)
qed

lemma decode_phase_decode_each_id: "decode_phase env s (decode_each_id env creds s)"
  unfolding decode_each_id_def
  by (intro decode_phase_bind decode_phase_pure decode_phase_decode_ids)

lemma decode_phase_register_decode: "decode_phase env s (register_decode env options s)"
  unfolding register_decode_def Let_def
  by (intro decode_phase_bind decode_phase_if decode_phase_pure decode_phase_decode
      decode_phase_decode_each_id)

lemma filter_decodes:
  "list_all is_decode es \<Longrightarrow>
   filter (\<lambda>ev. is_storage_write ev \<or> is_request_to p ev) es = [] \<and>
   filter is_storage_write es = [] \<and> list_all (\<lambda>ev. \<not> is_platform_call ev) es"
  by (induction es) (auto elim: is_decode.elims)

lemma filter_encodes:
  "list_all is_encode es \<Longrightarrow>
   filter (\<lambda>ev. is_storage_write ev \<or> is_request_to p ev) es = [] \<and>
   filter is_storage_write es = [] \<and> (\<forall>v. Decode v \<notin> set es)"
  by (induction es) (auto elim: is_encode.elims)

lemma register_decode_no_create:
  "Create a \<notin> set (events_of (register_decode env options s))"
proof
  assume "Create a \<in> set (events_of (register_decode env options s))"
  moreover have "list_all is_decode (events_of (register_decode env options s))"
    using decode_phase_register_decode [of env s options] by (simp add: decode_phase_def)
  ultimately have "is_decode (Create a)" by (auto simp: list_all_iff)
  then show False by simp
qed

subsection \<open>Encoding the credential\<close>

lemma get_prop_truthy: "truthy v \<Longrightarrow> \<exists>x. get_prop v k = Inr x"
  by (cases v) simp_all

lemma register_encode_bare:
  "\<not> truthy (cred_response cred) \<Longrightarrow>
   register_encode env cred s =
     (Inr (JObj [(''id'', JStr (cred_id cred)),
                 (''rawId'', JStr (codec_encode env (cred_rawId cred))),
                 (''type'', JStr (cred_type cred))]),
      s, [Encode (cred_rawId cred)])"
  by (simp add: register_encode_def bind_io_def base64url_encode_def return_io_def)

lemma register_encode_run:
  "\<exists>payload es. register_encode env cred s = (Inr payload, s, es) \<and> list_all is_encode es"
proof (cases "truthy (cred_response cred)")
  case True
  obtain cd ao where "get_prop (cred_response cred) ''clientDataJSON'' = Inr cd"
    and "get_prop (cred_response cred) ''attestationObject'' = Inr ao"
    using get_prop_truthy [OF True] by blast
  with True show ?thesis
    by (simp add: register_encode_def bind_io_def base64url_encode_def return_io_def lift_io_def)
next
  case False
  then show ?thesis by (simp add: register_encode_bare)
qed

lemma register_encode_no_create:
  "Create a \<notin> set (events_of (register_encode env cred s))"
proof -
  obtain payload es where "register_encode env cred s = (Inr payload, s, es)"
    and "list_all is_encode es"
    using register_encode_run by blast
  then show ?thesis by (auto simp: events_of_def list_all_iff)
qed

subsection \<open>The shape of a registration\<close>

text \<open>
  A registration whose events include a call of \<^verbatim>\<open>create\<close> that resolved: the options
  were fetched and decoded, and what follows the call is the encoding, the write of the
  slot and the verification request.
\<close>

lemma registerCredential_created:
  assumes "Create a \<in> set (events_of (registerCredential env s))"
    and "platform_create env a = Inr cred"
  shows "\<exists>options0 payload es.
           list_all is_encode es \<and>
           result_of (u_fetch env ''/auth/registerRequest'' (Value register_opts) s)
             = Inr options0 \<and>
           decode_phase env s (register_decode env options0 s) \<and>
           registerCredential env s =
             (result_of (u_fetch env ''/auth/registerResponse'' (Value payload)
                          (s(''credId'' \<mapsto> cred_id cred))),
              s(''credId'' \<mapsto> cred_id cred),
              Fetch (request_of ''/auth/registerRequest'' (Value register_opts))
                # events_of (register_decode env options0 s)
                @ Create a # es
                @ [SetItem ''credId'' (cred_id cred),
                   Fetch (request_of ''/auth/registerResponse'' (Value payload))]) \<and>
           register_encode env cred s = (Inr payload, s, es)"
proof -
  let ?f = "u_fetch env ''/auth/registerRequest'' (Value register_opts) s"
  obtain options0 where f: "result_of ?f = Inr options0"
    using assms(1)
    by (cases "result_of ?f") (simp_all add: registerCredential_def bind_runs u_fetch_runs)
  let ?d = "register_decode env options0 s"
  have ph: "decode_phase env s ?d" by (rule decode_phase_register_decode)
  then have sd: "storage_of ?d = s" by (simp add: decode_phase_def)
  obtain options where d: "result_of ?d = Inr options"
    using assms(1) f register_decode_no_create [of a env options0 s]
    by (cases "result_of ?d")
      (simp_all add: registerCredential_def bind_runs storage_of_u_fetch events_of_u_fetch)
  have a: "a = JObj [(''publicKey'', options)]"
    using assms(1) f d sd register_decode_no_create [of a env options0 s]
      register_encode_no_create [of a env _ s]
    by (auto simp: registerCredential_def bind_runs storage_of_u_fetch events_of_u_fetch
        primitive_runs split: sum.splits)
  obtain payload es where e: "register_encode env cred s = (Inr payload, s, es)"
    and es: "list_all is_encode es"
    using register_encode_run by blast
  have "registerCredential env s =
          (result_of (u_fetch env ''/auth/registerResponse'' (Value payload)
                          (s(''credId'' \<mapsto> cred_id cred))),
           s(''credId'' \<mapsto> cred_id cred),
           Fetch (request_of ''/auth/registerRequest'' (Value register_opts))
             # events_of ?d @ Create a # es
             @ [SetItem ''credId'' (cred_id cred),
                Fetch (request_of ''/auth/registerResponse'' (Value payload))])"
    using f d sd a assms(2) run_eq [OF e]
    by (intro run_eqI)
      (simp_all add: registerCredential_def bind_runs storage_of_u_fetch events_of_u_fetch
        primitive_runs)
  with ph es e f show ?thesis by blast
qed

lemma registerCredential_upto_create:
  assumes "server env (request_of ''/auth/registerRequest'' (Value register_opts)) = Inr res"
    and "res_status res = 200"
    and "res_json res = Inr options0"
    and "register_decode env options0 s = (Inr options, s, es)"
  shows "\<exists>rest. events_of (registerCredential env s) =
           Fetch (request_of ''/auth/registerRequest'' (Value register_opts)) # es
           @ [Create (JObj [(''publicKey'', options)])] @ rest"
  using assms(1-3) run_eq [OF assms(4)]
  by (simp add: registerCredential_def bind_runs u_fetch_runs primitive_runs)

lemma registerCredential_decode_failure:
  assumes v: "Decode v \<in> set (events_of (registerCredential env s))"
    and e: "codec_decode env v = Inl e"
  shows "result_of (registerCredential env s) = Inl e \<and>
         list_all (\<lambda>ev. \<not> is_platform_call ev) (events_of (registerCredential env s))"
proof -
  let ?f = "u_fetch env ''/auth/registerRequest'' (Value register_opts) s"
  obtain options0 where f: "result_of ?f = Inr options0"
    using v
    by (cases "result_of ?f") (simp_all add: registerCredential_def bind_runs u_fetch_runs)
  let ?d = "register_decode env options0 s"
  have ph: "decode_phase env s ?d" by (rule decode_phase_register_decode)
  then have sd: "storage_of ?d = s" and ds: "list_all is_decode (events_of ?d)"
    and fail: "Decode v \<in> set (events_of ?d) \<Longrightarrow> result_of ?d = Inl e"
    using e by (auto simp: decode_phase_def)
  have "Decode v \<in> set (events_of ?d)"
  proof (cases "result_of ?d")
    case (Inl e')
    with v f show ?thesis
      by (simp add: registerCredential_def bind_runs storage_of_u_fetch events_of_u_fetch)
  next
    case (Inr options)
    obtain rest where "events_of (registerCredential env s) =
        Fetch (request_of ''/auth/registerRequest'' (Value register_opts)) # events_of ?d
        @ Create (JObj [(''publicKey'', options)]) # rest"
      and "\<forall>w. Decode w \<notin> set rest"
    proof (cases "platform_create env (JObj [(''publicKey'', options)])")
      case (Inl e')
      with f Inr sd have "events_of (registerCredential env s) =
        Fetch (request_of ''/auth/registerRequest'' (Value register_opts)) # events_of ?d
        @ Create (JObj [(''publicKey'', options)]) # []"
        by (simp add: registerCredential_def bind_runs storage_of_u_fetch events_of_u_fetch
            primitive_runs)
      then show ?thesis using that by simp
    next
      case (Inr cred)
      have c: "Create (JObj [(''publicKey'', options)])
                 \<in> set (events_of (registerCredential env s))"
        using f \<open>result_of ?d = Inr options\<close> sd
        by (simp add: registerCredential_def bind_runs storage_of_u_fetch events_of_u_fetch
            primitive_runs)
      obtain options1 payload es where es: "list_all is_encode es"
        and f1: "result_of ?f = Inr options1"
        and run: "registerCredential env s =
             (result_of (u_fetch env ''/auth/registerResponse'' (Value payload)
                          (s(''credId'' \<mapsto> cred_id cred))),
              s(''credId'' \<mapsto> cred_id cred),
              Fetch (request_of ''/auth/registerRequest'' (Value register_opts))
                # events_of (register_decode env options1 s)
                @ Create (JObj [(''publicKey'', options)]) # es
                @ [SetItem ''credId'' (cred_id cred),
                   Fetch (request_of ''/auth/registerResponse'' (Value payload))])"
        using registerCredential_created [OF c Inr] by blast
      have "options1 = options0"
        using f f1 by simp
      then show ?thesis
        using that [of "es @ [SetItem ''credId'' (cred_id cred),
                   Fetch (request_of ''/auth/registerResponse'' (Value payload))]"]
          run_eq [OF run] filter_encodes [OF es] by simp
    qed
    with v show ?thesis by auto
  qed
  then have r: "result_of ?d = Inl e" by (rule fail)
  show ?thesis
    using f r sd filter_decodes [OF ds]
    by (simp add: registerCredential_def bind_runs storage_of_u_fetch events_of_u_fetch)
qed

subsection \<open>The builtin encoder on examples\<close>

lemma encodeURIComponent_examples:
  "encodeURIComponent ''abc'' = Inr ''abc''"
  "encodeURIComponent ''a b/c'' = Inr ''a%20b%2Fc''"
  "encodeURIComponent [CHR 0xC3, CHR 0xA9] = Inr ''%C3%A9''"
  "encodeURIComponent [CHR 0xF0, CHR 0x9F, CHR 0x98, CHR 0x80] = Inr ''%F0%9F%98%80''"
  "encodeURIComponent [CHR 0xED, CHR 0xA0, CHR 0x80] = Inl URIError"
  "encodeURIComponent [CHR 0xED, CHR 0xB0, CHR 0x80] = Inl URIError"
  by (simp_all add: encodeURIComponent_def percent_encoded_def uri_unreserved_def
      hex_digit_def continues_def)

lemma string_examples:
  "get_prop (JStr [CHR 0xC3, CHR 0xA9]) ''length'' = Inr (JNum 1)"
  "get_prop (JStr [CHR 0xF0, CHR 0x9F, CHR 0x98, CHR 0x80]) ''length'' = Inr (JNum 2)"
  "iterable (JStr (''a'' @ [CHR 0xC3, CHR 0xA9])) = Inr [JStr ''a'', JStr [CHR 0xC3, CHR 0xA9]]"
  by (simp_all add: utf16_length_def is_continuation_def)

subsection \<open>Unfolding a concrete ceremony\<close>

lemmas sample_defs =
  env_rejecting_def env_bare_def env_unlisted_def env_malformed_def
  env_no_credential_def env_no_credential_malformed_def env_two_credentials_def
  sample_env_def server_of_def ok_def failed_def attested_def bare_def asserted_def
  registration_options_def registration_options_decoded_def
  registration_options_unlisted_def registration_options_malformed_def
  signin_options_empty_def signin_options_malformed_def
  signin_options_two_def signin_options_two_decoded_def
  spec_decode_def spec_encode_def base64url_alphabet_def

lemmas program_defs =
  registerCredential_def register_decode_def register_encode_def decode_each_id_def
  decode_id_def u_fetch_def request_of_def register_opts_def
  authenticate_def authenticate_decode_def authenticate_encode_def signin_url_def
  unregisterCredential_def encodeURIComponent_def percent_encoded_def uri_unreserved_def
  hex_digit_def continues_def
  bind_io_def return_io_def throw_io_def lift_io_def fetch_def
  navigator_credentials_create_def navigator_credentials_get_def
  base64url_decode_def base64url_encode_def
  localStorage_getItem_def localStorage_setItem_def localStorage_removeItem_def
  console_info_def result_of_def storage_of_def events_of_def lookup_def
  entry_id_def entry_decoded_def decodable_def

subsection \<open>Concrete ceremonies\<close>

lemma run_rejecting:
  "registerCredential env_rejecting [''credId'' \<mapsto> ''old''] =
     (Inl (Thrown (JStr ''bad challenge'')),
      [''credId'' \<mapsto> ''abc''],
      [Fetch (request_of ''/auth/registerRequest'' (Value register_opts)),
       Decode (JStr ''dXNlcg''),
       Decode (JStr ''Y2hhbGxlbmdl''),
       Decode (JStr ''YWJj''),
       Create (JObj [(''publicKey'', registration_options_decoded)]),
       Encode (JBuf [105, 183]),
       Encode (JBuf [117, 115, 101, 114]),
       Encode (JBuf [99, 104, 97]),
       SetItem ''credId'' ''abc'',
       Fetch (request_of ''/auth/registerResponse''
         (Value (JObj [(''id'', JStr ''abc''), (''rawId'', JStr ''abc''),
                       (''type'', JStr ''public-key''),
                       (''response'', JObj [(''clientDataJSON'', JStr ''dXNlcg''),
                                            (''attestationObject'', JStr ''Y2hh'')])])))])"
  by (simp add: sample_defs program_defs)

lemma run_bare:
  "registerCredential env_bare Map.empty =
     (Inr (JObj [(''ok'', JBool True)]),
      [''credId'' \<mapsto> ''abc''],
      [Fetch (request_of ''/auth/registerRequest'' (Value register_opts)),
       Decode (JStr ''dXNlcg''),
       Decode (JStr ''Y2hhbGxlbmdl''),
       Decode (JStr ''YWJj''),
       Create (JObj [(''publicKey'', registration_options_decoded)]),
       Encode (JBuf [105, 183]),
       SetItem ''credId'' ''abc'',
       Fetch (request_of ''/auth/registerResponse''
         (Value (JObj [(''id'', JStr ''abc''), (''rawId'', JStr ''abc''),
                       (''type'', JStr ''public-key'')])))])"
  by (simp add: sample_defs program_defs)

lemma run_unlisted:
  "registerCredential env_unlisted Map.empty =
     (Inl (Rejected ''network''),
      [''credId'' \<mapsto> ''abc''],
      [Fetch (request_of ''/auth/registerRequest'' (Value register_opts)),
       Decode (JStr ''dXNlcg''),
       Decode (JStr ''Y2hhbGxlbmdl''),
       Create (JObj [(''publicKey'',
         JObj [(''user'', JObj [(''id'', JBuf [117, 115, 101, 114])]),
               (''challenge'', JBuf [99, 104, 97, 108, 108, 101, 110, 103, 101])])]),
       Encode (JBuf [105, 183]),
       Encode (JBuf [117, 115, 101, 114]),
       Encode (JBuf [99, 104, 97]),
       SetItem ''credId'' ''abc'',
       Fetch (request_of ''/auth/registerResponse''
         (Value (JObj [(''id'', JStr ''abc''), (''rawId'', JStr ''abc''),
                       (''type'', JStr ''public-key''),
                       (''response'', JObj [(''clientDataJSON'', JStr ''dXNlcg''),
                                            (''attestationObject'', JStr ''Y2hh'')])])))])"
  by (simp add: sample_defs program_defs)

lemma run_malformed:
  "registerCredential env_malformed Map.empty =
     (Inl MalformedEncodingError,
      Map.empty,
      [Fetch (request_of ''/auth/registerRequest'' (Value register_opts)),
       Decode (JStr ''dXNlcg''),
       Decode (JStr ''not base64!!'')])"
  by (simp add: sample_defs program_defs)

lemma run_no_credential:
  "authenticate env_no_credential [''credId'' \<mapsto> ''abc''] =
     (Inr JNull,
      [''credId'' \<mapsto> ''abc''],
      [GetItem ''credId'',
       Fetch (request_of ''/auth/signinRequest?credId=abc'' (Value (JObj []))),
       ConsoleInfo ''No registered credentials found.''])"
  by (simp add: sample_defs program_defs)

lemma run_no_credential_malformed:
  "authenticate env_no_credential_malformed Map.empty =
     (Inr JNull,
      Map.empty,
      [GetItem ''credId'',
       Fetch (request_of ''/auth/signinRequest'' (Value (JObj []))),
       ConsoleInfo ''No registered credentials found.''])"
  by (simp add: sample_defs program_defs)

lemma run_two_credentials:
  "authenticate env_two_credentials [''credId'' \<mapsto> ''abc''] =
     (Inr (JObj [(''ok'', JBool True)]),
      [''credId'' \<mapsto> ''abc''],
      [GetItem ''credId'',
       Fetch (request_of ''/auth/signinRequest?credId=abc'' (Value (JObj []))),
       Decode (JStr ''Y2hhbGxlbmdl''),
       Decode (JStr ''dXNlcg''),
       Decode (JStr ''YWJj''),
       Get (JObj [(''publicKey'', signin_options_two_decoded)]),
       Encode (JBuf [105, 183]),
       Encode (JBuf [117, 115, 101, 114]),
       Encode (JBuf [99, 104, 97]),
       Encode (JBuf [97, 98, 99]),
       Encode JNull,
       Fetch (request_of ''/auth/signinResponse''
         (Value (JObj [(''id'', JStr ''abc''), (''type'', JStr ''public-key''),
                       (''rawId'', JStr ''abc''),
                       (''response'', JObj [(''clientDataJSON'', JStr ''dXNlcg''),
                                            (''authenticatorData'', JStr ''Y2hh''),
                                            (''signature'', JStr ''YWJj''),
                                            (''userHandle'', JStr [])])])))])"
  by (simp add: sample_defs program_defs)

lemmas sample_runs =
  run_eq [OF run_rejecting] run_eq [OF run_bare] run_eq [OF run_unlisted]
  run_eq [OF run_malformed]
  run_eq [OF run_no_credential] run_eq [OF run_no_credential_malformed]
  run_eq [OF run_two_credentials]

section \<open>The Transport Adapter settles by status\<close>

text \<open>
  C4. For every call of the Transport Adapter whose request the server answers with a
  body that parses as JSON: when the status is 200 the call resolves with the parsed
  body; when the status is anything else (a 4xx as much as a 5xx: the status is only
  compared with 200) and the \<^verbatim>\<open>error\<close> member of the body can be read, the call is
  rejected with that member.
\<close>

theorem u_fetch_by_status:
  assumes "server env (request_of path payload) = Inr res"
    and "res_json res = Inr body"
  shows "(res_status res = 200 \<longrightarrow>
            result_of (u_fetch env path payload s) = Inr body) \<and>
         (res_status res \<noteq> 200 \<and> get_prop body ''error'' = Inr err \<longrightarrow>
            result_of (u_fetch env path payload s) = Inl (Thrown err))"
  using assms by (simp add: result_of_u_fetch)

theorem u_fetch_by_status_witness:
  "result_of (u_fetch (sample_env [(''/auth/registerResponse'',
                           ok (JObj [(''ok'', JBool True)]))] attested)
               ''/auth/registerResponse'' (Value (JObj [])) Map.empty)
     = Inr (JObj [(''ok'', JBool True)]) \<and>
   result_of (u_fetch (sample_env [(''/auth/registerResponse'',
                           failed 400 (JObj [(''error'', JStr ''bad challenge'')]))] attested)
               ''/auth/registerResponse'' (Value (JObj [])) Map.empty)
     = Inl (Thrown (JStr ''bad challenge'')) \<and>
   result_of (u_fetch (sample_env [(''/auth/registerResponse'',
                           failed 500 (JObj [(''error'', JStr ''bad challenge'')]))] attested)
               ''/auth/registerResponse'' (Value (JObj [])) Map.empty)
     = Inl (Thrown (JStr ''bad challenge''))"
  using
    u_fetch_by_status
      [where env = "sample_env [(''/auth/registerResponse'',
                                 ok (JObj [(''ok'', JBool True)]))] attested"
         and path = "''/auth/registerResponse''" and payload = "Value (JObj [])"
         and res = "ok (JObj [(''ok'', JBool True)])"
         and body = "JObj [(''ok'', JBool True)]" and s = Map.empty]
    u_fetch_by_status
      [where env = "sample_env [(''/auth/registerResponse'',
                       failed 400 (JObj [(''error'', JStr ''bad challenge'')]))] attested"
         and path = "''/auth/registerResponse''" and payload = "Value (JObj [])"
         and res = "failed 400 (JObj [(''error'', JStr ''bad challenge'')])"
         and body = "JObj [(''error'', JStr ''bad challenge'')]"
         and err = "JStr ''bad challenge''" and s = Map.empty]
    u_fetch_by_status
      [where env = "sample_env [(''/auth/registerResponse'',
                       failed 500 (JObj [(''error'', JStr ''bad challenge'')]))] attested"
         and path = "''/auth/registerResponse''" and payload = "Value (JObj [])"
         and res = "failed 500 (JObj [(''error'', JStr ''bad challenge'')])"
         and body = "JObj [(''error'', JStr ''bad challenge'')]"
         and err = "JStr ''bad challenge''" and s = Map.empty]
  by (simp add: sample_env_def server_of_def request_of_def ok_def failed_def lookup_def)

section \<open>Unregistration\<close>




text \<open>
  C5, as the code has it. Unregistration asks the server through the Transport Adapter
  as every other call does. When \<^verbatim>\<open>encodeURIComponent\<close> accepts the identifier, it
  makes one request with the method POST, whose path carries the encoded identifier
  in the query string; the body is the empty string and no JSON content type is set.
  When \<^verbatim>\<open>encodeURIComponent\<close> throws, it makes no request.
\<close>

theorem unregisterCredential_request_is_POST:
  "requests_of (events_of (unregisterCredential env credId s)) =
     (case encodeURIComponent credId of
        Inr encoded \<Rightarrow>
          [\<lparr> req_path = ''/auth/removeKey?credId='' @ encoded,
             req_method = ''POST'',
             req_credentials = ''same-origin'',
             req_headers = [(''X-Requested-With'', ''XMLHttpRequest'')],
             req_body = AsIs (Value (JStr [])) \<rparr>]
      | Inl e \<Rightarrow> [])"
  by (simp add: unregisterCredential_def bind_runs primitive_runs u_fetch_runs request_of_def
      split: sum.splits)

text \<open>
  C5 as stated fails: the removal of the identifier \<^verbatim>\<open>a b\<close> is one request, and its
  method is POST, not GET.
\<close>

theorem unregisterCredential_GET_counterexample:
  "map req_path (requests_of (events_of
      (unregisterCredential (sample_env [] attested) ''a b'' Map.empty))) =
     [''/auth/removeKey?credId=a%20b''] \<and>
   map req_method (requests_of (events_of
      (unregisterCredential (sample_env [] attested) ''a b'' Map.empty))) = [''POST''] \<and>
   map req_method (requests_of (events_of
      (unregisterCredential (sample_env [] attested) ''a b'' Map.empty))) \<noteq> [''GET'']"
  by (simp add: unregisterCredential_def bind_runs primitive_runs u_fetch_runs request_of_def
      encodeURIComponent_def percent_encoded_def uri_unreserved_def hex_digit_def)

section \<open>Registration\<close>

text \<open>
  C6, as the code has it. Every registration starts with a POST to
  \<^verbatim>\<open>/auth/registerRequest\<close> whose JSON body is the parameters object. Its attestation
  is \<^verbatim>\<open>none\<close>, its authenticator attachment \<^verbatim>\<open>platform\<close>, its user verification
  \<^verbatim>\<open>required\<close>. The resident-key member, \<^verbatim>\<open>requireResidentKey\<close>, is not in the object:
  the source spells the key \<^verbatim>\<open>requireResistantKey\<close> under a comment that describes
  the resident key, and that misspelt key is the one set to false.
\<close>

theorem registerCredential_first_request:
  "take 1 (events_of (registerCredential env s)) =
     [Fetch \<lparr> req_path = ''/auth/registerRequest'',
              req_method = ''POST'',
              req_credentials = ''same-origin'',
              req_headers = [(''X-Requested-With'', ''XMLHttpRequest''),
                             (''Content-Type'', ''application/json'')],
              req_body = JsonText register_opts \<rparr>] \<and>
   get_prop register_opts ''attestation'' = Inr (JStr ''none'') \<and>
   get_prop (authenticatorSelection register_opts) ''authenticatorAttachment''
     = Inr (JStr ''platform'') \<and>
   get_prop (authenticatorSelection register_opts) ''userVerification''
     = Inr (JStr ''required'') \<and>
   get_prop (authenticatorSelection register_opts) ''requireResidentKey''
     = Inr JUndefined \<and>
   get_prop (authenticatorSelection register_opts) ''requireResidentKey''
     \<noteq> Inr (JBool False) \<and>
   get_prop (authenticatorSelection register_opts) ''requireResistantKey''
     = Inr (JBool False)"
  by (simp add: registerCredential_def events_of_bind_io events_of_u_fetch
      request_of_def register_opts_def lookup_def authenticatorSelection_def)

text \<open>
  C7. When the server answers the options request with an object whose \<^verbatim>\<open>user\<close> is an
  object, and the codec decodes the user identifier, the challenge and the identifier
  of every entry of \<^verbatim>\<open>excludeCredentials\<close>, the events of the registration begin with
  the request, the decoding of the user identifier, of the challenge and of every
  entry in order, and then the call of \<^verbatim>\<open>create\<close>, whose argument holds the options
  with each of these texts replaced by its bytes. The same holds with no list to
  decode when \<^verbatim>\<open>excludeCredentials\<close> is absent. And in every registration, a decode
  call that failed is the reason the ceremony is rejected with (the codec's
  \<open>MalformedEncodingError\<close>), and no call of the platform capability was made.
\<close>

theorem registerCredential_decodes_before_create:
  "(server env (request_of ''/auth/registerRequest'' (Value register_opts)) = Inr res \<and>
    res_status res = 200 \<and> res_json res = Inr (JObj ps) \<and>
    lookup ps ''user'' = JObj us \<and>
    codec_decode env (lookup us ''id'') = Inr u \<and>
    codec_decode env (lookup ps ''challenge'') = Inr c \<and>
    lookup ps ''excludeCredentials'' = JArr creds xps \<and>
    list_all (decodable env) creds \<longrightarrow>
    (\<exists>rest. events_of (registerCredential env s) =
       [Fetch (request_of ''/auth/registerRequest'' (Value register_opts)),
        Decode (lookup us ''id''),
        Decode (lookup ps ''challenge'')]
       @ map (\<lambda>cred. Decode (entry_id cred)) creds
       @ [Create (JObj [(''publicKey'',
            JObj (AList.update ''excludeCredentials''
                    (JArr (map (entry_decoded env) creds) xps)
                    (AList.update ''challenge'' (JBuf c)
                      (AList.update ''user'' (JObj (AList.update ''id'' (JBuf u) us))
                         ps))))])]
       @ rest)) \<and>
   (server env (request_of ''/auth/registerRequest'' (Value register_opts)) = Inr res \<and>
    res_status res = 200 \<and> res_json res = Inr (JObj ps) \<and>
    lookup ps ''user'' = JObj us \<and>
    codec_decode env (lookup us ''id'') = Inr u \<and>
    codec_decode env (lookup ps ''challenge'') = Inr c \<and>
    \<not> truthy (lookup ps ''excludeCredentials'') \<longrightarrow>
    (\<exists>rest. events_of (registerCredential env s) =
       [Fetch (request_of ''/auth/registerRequest'' (Value register_opts)),
        Decode (lookup us ''id''),
        Decode (lookup ps ''challenge''),
        Create (JObj [(''publicKey'',
            JObj (AList.update ''challenge'' (JBuf c)
                   (AList.update ''user'' (JObj (AList.update ''id'' (JBuf u) us))
                      ps)))])]
       @ rest)) \<and>
   (Decode v \<in> set (events_of (registerCredential env s)) \<and>
    codec_decode env v = Inl e \<longrightarrow>
    result_of (registerCredential env s) = Inl e \<and>
    list_all (\<lambda>ev. \<not> is_platform_call ev) (events_of (registerCredential env s)))"
proof (intro conjI impI)
  assume "server env (request_of ''/auth/registerRequest'' (Value register_opts)) = Inr res \<and>
      res_status res = 200 \<and> res_json res = Inr (JObj ps) \<and>
      lookup ps ''user'' = JObj us \<and>
      codec_decode env (lookup us ''id'') = Inr u \<and>
      codec_decode env (lookup ps ''challenge'') = Inr c \<and>
      lookup ps ''excludeCredentials'' = JArr creds xps \<and>
      list_all (decodable env) creds"
  then show "\<exists>rest. events_of (registerCredential env s) =
         [Fetch (request_of ''/auth/registerRequest'' (Value register_opts)),
          Decode (lookup us ''id''),
          Decode (lookup ps ''challenge'')]
         @ map (\<lambda>cred. Decode (entry_id cred)) creds
         @ [Create (JObj [(''publicKey'',
              JObj (AList.update ''excludeCredentials''
                      (JArr (map (entry_decoded env) creds) xps)
                      (AList.update ''challenge'' (JBuf c)
                        (AList.update ''user'' (JObj (AList.update ''id'' (JBuf u) us))
                           ps))))])]
         @ rest"
    using registerCredential_upto_create
      [OF _ _ _ register_decode_listed, of env res ps us u c creds xps s]
    by simp
next
  assume "server env (request_of ''/auth/registerRequest'' (Value register_opts)) = Inr res \<and>
      res_status res = 200 \<and> res_json res = Inr (JObj ps) \<and>
      lookup ps ''user'' = JObj us \<and>
      codec_decode env (lookup us ''id'') = Inr u \<and>
      codec_decode env (lookup ps ''challenge'') = Inr c \<and>
      \<not> truthy (lookup ps ''excludeCredentials'')"
  then show "\<exists>rest. events_of (registerCredential env s) =
         [Fetch (request_of ''/auth/registerRequest'' (Value register_opts)),
          Decode (lookup us ''id''),
          Decode (lookup ps ''challenge''),
          Create (JObj [(''publicKey'',
              JObj (AList.update ''challenge'' (JBuf c)
                     (AList.update ''user'' (JObj (AList.update ''id'' (JBuf u) us))
                        ps)))])]
         @ rest"
    using registerCredential_upto_create
      [OF _ _ _ register_decode_unlisted, of env res ps us u c s]
    by simp
next
  assume "Decode v \<in> set (events_of (registerCredential env s)) \<and> codec_decode env v = Inl e"
  then show "result_of (registerCredential env s) = Inl e"
    using registerCredential_decode_failure by blast
next
  assume "Decode v \<in> set (events_of (registerCredential env s)) \<and> codec_decode env v = Inl e"
  then show "list_all (\<lambda>ev. \<not> is_platform_call ev) (events_of (registerCredential env s))"
    using registerCredential_decode_failure by blast
qed

theorem registerCredential_decodes_before_create_witness:
  "take 5 (events_of (registerCredential env_rejecting [''credId'' \<mapsto> ''old''])) =
     [Fetch (request_of ''/auth/registerRequest'' (Value register_opts)),
      Decode (JStr ''dXNlcg''),
      Decode (JStr ''Y2hhbGxlbmdl''),
      Decode (JStr ''YWJj''),
      Create (JObj [(''publicKey'', registration_options_decoded)])] \<and>
   take 4 (events_of (registerCredential env_unlisted Map.empty)) =
     [Fetch (request_of ''/auth/registerRequest'' (Value register_opts)),
      Decode (JStr ''dXNlcg''),
      Decode (JStr ''Y2hhbGxlbmdl''),
      Create (JObj [(''publicKey'',
        JObj [(''user'', JObj [(''id'', JBuf [117, 115, 101, 114])]),
              (''challenge'', JBuf [99, 104, 97, 108, 108, 101, 110, 103, 101])])])] \<and>
   Decode (JStr ''not base64!!'') \<in> set (events_of (registerCredential env_malformed Map.empty)) \<and>
   codec_decode env_malformed (JStr ''not base64!!'') = Inl MalformedEncodingError \<and>
   result_of (registerCredential env_malformed Map.empty) = Inl MalformedEncodingError \<and>
   map is_platform_call (events_of (registerCredential env_malformed Map.empty))
     = [False, False, False]"
  using
    registerCredential_decodes_before_create
      [where env = env_rejecting and s = "[''credId'' \<mapsto> ''old'']"
         and res = "ok registration_options"
         and ps = "[(''user'', JObj [(''id'', JStr ''dXNlcg''), (''name'', JStr ''user'')]),
                    (''challenge'', JStr ''Y2hhbGxlbmdl''),
                    (''excludeCredentials'',
                     JList [JObj [(''id'', JStr ''YWJj''), (''type'', JStr ''public-key'')]])]"
         and us = "[(''id'', JStr ''dXNlcg''), (''name'', JStr ''user'')]"
         and u = "[117, 115, 101, 114]"
         and c = "[99, 104, 97, 108, 108, 101, 110, 103, 101]"
         and creds = "[JObj [(''id'', JStr ''YWJj''), (''type'', JStr ''public-key'')]]"
         and xps = "[]" and v = "JStr ''YWJj''" and e = MalformedEncodingError]
    registerCredential_decodes_before_create
      [where env = env_unlisted and s = Map.empty
         and res = "ok registration_options_unlisted"
         and ps = "[(''user'', JObj [(''id'', JStr ''dXNlcg'')]),
                    (''challenge'', JStr ''Y2hhbGxlbmdl'')]"
         and us = "[(''id'', JStr ''dXNlcg'')]"
         and u = "[117, 115, 101, 114]"
         and c = "[99, 104, 97, 108, 108, 101, 110, 103, 101]"
         and creds = "[]" and xps = "[]"
         and v = "JStr ''dXNlcg''" and e = MalformedEncodingError]
    registerCredential_decodes_before_create
      [where env = env_malformed and s = Map.empty
         and res = "ok registration_options_malformed"
         and ps = "[(''user'', JObj [(''id'', JStr ''dXNlcg'')]),
                    (''challenge'', JStr ''not base64!!''),
                    (''excludeCredentials'', JList [])]"
         and us = "[(''id'', JStr ''dXNlcg'')]"
         and u = "[117, 115, 101, 114]" and c = "[]" and creds = "[]" and xps = "[]"
         and v = "JStr ''not base64!!''" and e = MalformedEncodingError]
  apply (simp only: sample_runs)
  apply (simp add: sample_defs request_of_def register_opts_def lookup_def
      entry_id_def entry_decoded_def decodable_def)
  done

text \<open>
  C2. In every registration in which \<^verbatim>\<open>create\<close> was called and resolved with a
  credential (the ceremony reaches the encoding step), the storage is written exactly
  once, with the identifier of that credential in the slot \<^verbatim>\<open>credId\<close>; among the writes
  and the requests to \<^verbatim>\<open>/auth/registerResponse\<close> the write comes first and one request
  follows; and the slot holds the identifier afterwards whatever the verification
  request settles with, also when it is rejected.
\<close>

theorem registerCredential_persists_once_before_verifying:
  assumes "Create a \<in> set (events_of (registerCredential env s))"
    and "platform_create env a = Inr cred"
  shows "filter is_storage_write (events_of (registerCredential env s)) =
           [SetItem ''credId'' (cred_id cred)] \<and>
         (\<exists>payload.
            filter (\<lambda>ev. is_storage_write ev \<or> is_request_to ''/auth/registerResponse'' ev)
              (events_of (registerCredential env s)) =
            [SetItem ''credId'' (cred_id cred),
             Fetch (request_of ''/auth/registerResponse'' (Value payload))]) \<and>
         storage_of (registerCredential env s) = s(''credId'' \<mapsto> cred_id cred) \<and>
         (result_of (registerCredential env s) = Inl e \<longrightarrow>
            storage_of (registerCredential env s) ''credId'' = Some (cred_id cred))"
proof -
  obtain options0 payload es where es: "list_all is_encode es"
    and ph: "decode_phase env s (register_decode env options0 s)"
    and run: "registerCredential env s =
             (result_of (u_fetch env ''/auth/registerResponse'' (Value payload)
                          (s(''credId'' \<mapsto> cred_id cred))),
              s(''credId'' \<mapsto> cred_id cred),
              Fetch (request_of ''/auth/registerRequest'' (Value register_opts))
                # events_of (register_decode env options0 s)
                @ Create a # es
                @ [SetItem ''credId'' (cred_id cred),
                   Fetch (request_of ''/auth/registerResponse'' (Value payload))])"
    using registerCredential_created [OF assms] by blast
  have ds: "list_all is_decode (events_of (register_decode env options0 s))"
    using ph by (simp add: decode_phase_def)
  note run' = run_eq [OF run]
  show ?thesis
    using filter_decodes [OF ds, of "''/auth/registerResponse''"]
      filter_encodes [OF es, of "''/auth/registerResponse''"]
    by (auto simp: run' req_path_request_of)
qed

theorem registerCredential_persists_once_before_verifying_witness:
  "Create (JObj [(''publicKey'', registration_options_decoded)])
     \<in> set (events_of (registerCredential env_rejecting [''credId'' \<mapsto> ''old''])) \<and>
   platform_create env_rejecting (JObj [(''publicKey'', registration_options_decoded)])
     = Inr attested \<and>
   result_of (registerCredential env_rejecting [''credId'' \<mapsto> ''old''])
     = Inl (Thrown (JStr ''bad challenge'')) \<and>
   storage_of (registerCredential env_rejecting [''credId'' \<mapsto> ''old'']) ''credId''
     = Some ''abc'' \<and>
   filter is_storage_write
     (events_of (registerCredential env_rejecting [''credId'' \<mapsto> ''old'']))
     = [SetItem ''credId'' ''abc'']"
  using
    registerCredential_persists_once_before_verifying
      [where env = env_rejecting and s = "[''credId'' \<mapsto> ''old'']"
         and a = "JObj [(''publicKey'', registration_options_decoded)]"
         and cred = attested and e = "Thrown (JStr ''bad challenge'')"]
  apply (simp only: sample_runs)
  apply (simp add: env_rejecting_def sample_env_def attested_def)
  done



section \<open>Authentication\<close>

text \<open>
  C1. For every authentication in which the server answers the options request (the
  request to the sign-in path the ceremony built) with 200 and an object whose
  \<^verbatim>\<open>allowCredentials\<close> is an empty array, the ceremony resolves with \<^verbatim>\<open>null\<close>; its
  events are the read of the slot, the request and the console message, and no call
  of the platform capability's \<^verbatim>\<open>get\<close> is among them.
\<close>

theorem authenticate_empty_allow_list:
  assumes "signin_url (s ''credId'') = Inr url"
    and "server env (request_of url (Value (JObj []))) = Inr res"
    and "res_status res = 200"
    and "res_json res = Inr options"
    and "get_prop options ''allowCredentials'' = Inr (JArr [] xps)"
  shows "result_of (authenticate env s) = Inr JNull \<and>
         events_of (authenticate env s) =
           [GetItem ''credId'',
            Fetch (request_of url (Value (JObj []))),
            ConsoleInfo ''No registered credentials found.''] \<and>
         (\<forall>a. Get a \<notin> set (events_of (authenticate env s)))"
  using assms
  by (simp add: authenticate_def bind_runs primitive_runs u_fetch_runs)

theorem authenticate_empty_allow_list_witness:
  "signin_url ([''credId'' \<mapsto> ''abc''] ''credId'') = Inr ''/auth/signinRequest?credId=abc'' \<and>
   server env_no_credential
      (request_of ''/auth/signinRequest?credId=abc'' (Value (JObj [])))
     = Inr (ok signin_options_empty) \<and>
   get_prop signin_options_empty ''allowCredentials'' = Inr (JList []) \<and>
   result_of (authenticate env_no_credential [''credId'' \<mapsto> ''abc'']) = Inr JNull \<and>
   map is_platform_call (events_of (authenticate env_no_credential [''credId'' \<mapsto> ''abc'']))
     = [False, False, False]"
  using authenticate_empty_allow_list
      [where env = env_no_credential and s = "[''credId'' \<mapsto> ''abc'']"
         and url = "''/auth/signinRequest?credId=abc''"
         and res = "ok signin_options_empty" and options = signin_options_empty
         and xps = "[]"]
  apply (simp only: sample_runs)
  apply (simp add: env_no_credential_def sample_env_def server_of_def ok_def request_of_def
      signin_url_def encodeURIComponent_def percent_encoded_def uri_unreserved_def
      signin_options_empty_def lookup_def)
  done

text \<open>
  C9. For every authentication in which the server answers the options request with
  200 and an object whose \<^verbatim>\<open>allowCredentials\<close> is an empty array, whatever the challenge
  in that object and whatever the codec would make of it, no decode call is made; the
  ceremony is not rejected with \<open>MalformedEncodingError\<close>, it resolves with \<^verbatim>\<open>null\<close>.
\<close>

theorem authenticate_empty_allow_list_never_decodes:
  assumes "signin_url (s ''credId'') = Inr url"
    and "server env (request_of url (Value (JObj []))) = Inr res"
    and "res_status res = 200"
    and "res_json res = Inr options"
    and "get_prop options ''allowCredentials'' = Inr (JArr [] xps)"
  shows "(\<forall>v. Decode v \<notin> set (events_of (authenticate env s))) \<and>
         result_of (authenticate env s) \<noteq> Inl MalformedEncodingError \<and>
         result_of (authenticate env s) = Inr JNull"
  using assms
  by (simp add: authenticate_def bind_runs primitive_runs u_fetch_runs)

theorem authenticate_empty_allow_list_never_decodes_witness:
  "signin_url (Map.empty ''credId'') = Inr ''/auth/signinRequest'' \<and>
   get_prop signin_options_malformed ''challenge'' = Inr (JStr ''not base64!!'') \<and>
   codec_decode env_no_credential_malformed (JStr ''not base64!!'')
     = Inl MalformedEncodingError \<and>
   get_prop signin_options_malformed ''allowCredentials'' = Inr (JList []) \<and>
   result_of (authenticate env_no_credential_malformed Map.empty) = Inr JNull \<and>
   map is_decode (events_of (authenticate env_no_credential_malformed Map.empty))
     = [False, False, False]"
  using authenticate_empty_allow_list_never_decodes
      [where env = env_no_credential_malformed and s = Map.empty
         and url = "''/auth/signinRequest''"
         and res = "ok signin_options_malformed" and options = signin_options_malformed
         and xps = "[]"]
  apply (simp only: sample_runs)
  apply (simp add: env_no_credential_malformed_def sample_env_def server_of_def ok_def
      request_of_def signin_url_def signin_options_malformed_def lookup_def
      spec_decode_def base64url_alphabet_def)
  done

text \<open>
  C10. For every authentication in which the server answers the options request with
  200 and an object whose \<^verbatim>\<open>allowCredentials\<close> is a non-empty array, of any length, of
  entries whose identifiers the codec decodes, and whose challenge the codec decodes:
  after the read of the slot and the request, the challenge is decoded, then the
  identifier of every entry in order, and then \<^verbatim>\<open>get\<close> is called with the options in
  which the challenge and the identifier of every entry of the list are replaced by
  their bytes.
\<close>

theorem authenticate_decodes_every_entry:
  assumes "signin_url (s ''credId'') = Inr url"
    and "server env (request_of url (Value (JObj []))) = Inr res"
    and "res_status res = 200"
    and "res_json res = Inr (JObj ps)"
    and "lookup ps ''allowCredentials'' = JArr creds xps"
    and "creds \<noteq> []"
    and "codec_decode env (lookup ps ''challenge'') = Inr c"
    and "list_all (decodable env) creds"
  shows "\<exists>rest. events_of (authenticate env s) =
           [GetItem ''credId'',
            Fetch (request_of url (Value (JObj []))),
            Decode (lookup ps ''challenge'')]
           @ map (\<lambda>cred. Decode (entry_id cred)) creds
           @ [Get (JObj [(''publicKey'',
                JObj (AList.update ''allowCredentials''
                        (JArr (map (entry_decoded env) creds) xps)
                        (AList.update ''challenge'' (JBuf c) ps)))])]
           @ rest"
proof -
  have len: "get_prop (JArr creds xps) ''length'' \<noteq> Inr (JNum 0)"
    using \<open>creds \<noteq> []\<close> by simp
  show ?thesis
    using assms len
    by (simp add: authenticate_def bind_runs primitive_runs u_fetch_runs
        run_eq [OF authenticate_decode_ok])
qed

theorem authenticate_decodes_every_entry_witness:
  "signin_url ([''credId'' \<mapsto> ''abc''] ''credId'') = Inr ''/auth/signinRequest?credId=abc'' \<and>
   take 6 (events_of (authenticate env_two_credentials [''credId'' \<mapsto> ''abc''])) =
     [GetItem ''credId'',
      Fetch (request_of ''/auth/signinRequest?credId=abc'' (Value (JObj []))),
      Decode (JStr ''Y2hhbGxlbmdl''),
      Decode (JStr ''dXNlcg''),
      Decode (JStr ''YWJj''),
      Get (JObj [(''publicKey'', signin_options_two_decoded)])]"
  using authenticate_decodes_every_entry
      [where env = env_two_credentials and s = "[''credId'' \<mapsto> ''abc'']"
         and url = "''/auth/signinRequest?credId=abc''"
         and res = "ok signin_options_two"
         and ps = "[(''challenge'', JStr ''Y2hhbGxlbmdl''),
                    (''allowCredentials'',
                     JList [JObj [(''id'', JStr ''dXNlcg''), (''type'', JStr ''public-key'')],
                            JObj [(''id'', JStr ''YWJj''), (''type'', JStr ''public-key'')]])]"
         and creds = "[JObj [(''id'', JStr ''dXNlcg''), (''type'', JStr ''public-key'')],
                       JObj [(''id'', JStr ''YWJj''), (''type'', JStr ''public-key'')]]"
         and xps = "[]" and c = "[99, 104, 97, 108, 108, 101, 110, 103, 101]"]
  apply (simp only: sample_runs)
  apply (simp add: sample_defs request_of_def signin_url_def encodeURIComponent_def
      percent_encoded_def uri_unreserved_def lookup_def entry_id_def entry_decoded_def
      decodable_def)
  done

end
